theory Spec2Isabelle
  imports Main
begin

section \<open>The tool interface\<close>

text \<open>
  The repository's files are a README and three example notebooks. The one piece of
  library source they quote is the definition of a tool, in
  \<^verbatim>\<open>docs/getting_started/agents.ipynb\<close>:
  \<^verbatim>\<open>
  class Tool(NamedTuple):
      """Interface for tools."""

      name: str
      func: Callable[[str], str]
      description: Optional[str] = None
  \<close>
  The named tuple is a record of its three fields. Python's \<^verbatim>\<open>None\<close> for the
  description is \<open>None\<close> of the option type.
\<close>

datatype error = TypeError

record Tool =
  name :: string
  func :: "string \<Rightarrow> string"
  description :: "string option"

text \<open>
  Calling the class builds a tool. Each of the three parameters is either supplied
  (\<open>Some\<close>) or left out (\<open>None\<close>); for the description, \<open>Some None\<close> is Python's
  \<^verbatim>\<open>description=None\<close> written out. A named tuple's field without a default is a
  required parameter of its constructor, which raises \<^verbatim>\<open>TypeError\<close> when it is
  missing; a field with a default takes the default.
\<close>

definition Tool_new ::
  "string option \<Rightarrow> (string \<Rightarrow> string) option \<Rightarrow> string option option \<Rightarrow> error + Tool" where
  "Tool_new n f d =
     (case n of
        None \<Rightarrow> Inl TypeError
      | Some n' \<Rightarrow>
          (case f of
             None \<Rightarrow> Inl TypeError
           | Some f' \<Rightarrow>
               Inr \<lparr>name = n', func = f',
                    description = (case d of None \<Rightarrow> None | Some d' \<Rightarrow> d')\<rparr>))"

text \<open>
  A Python list display evaluates its elements from left to right; the first exception
  leaves the display.
\<close>

fun list_display :: "(error + 'a) list \<Rightarrow> error + 'a list" where
  "list_display [] = Inr []"
| "list_display (Inl e # xs) = Inl e"
| "list_display (Inr x # xs) =
     (case list_display xs of Inl e \<Rightarrow> Inl e | Inr ys \<Rightarrow> Inr (x # ys))"

text \<open>
  The tool list of \<^verbatim>\<open>docs/getting_started/agents.ipynb\<close>. The two callables,
  \<^verbatim>\<open>search.run\<close> and \<^verbatim>\<open>llm_math_chain.run\<close>, belong to objects whose classes are not
  in the repository's files, so they are parameters.
\<close>

definition tools :: "(string \<Rightarrow> string) \<Rightarrow> (string \<Rightarrow> string) \<Rightarrow> error + Tool list" where
  "tools search_run llm_math_chain_run =
     list_display
       [Tool_new (Some ''Search'') (Some search_run)
          (Some (Some ''useful for when you need to answer questions about current events'')),
        Tool_new (Some ''Calculator'') (Some llm_math_chain_run)
          (Some (Some ''useful for when you need to answer questions about math''))]"

text \<open>The tool list of \<^verbatim>\<open>docs/examples/agents/mrkl.ipynb\<close>, with a third tool.\<close>

definition mrkl_tools ::
  "(string \<Rightarrow> string) \<Rightarrow> (string \<Rightarrow> string) \<Rightarrow> (string \<Rightarrow> string) \<Rightarrow> error + Tool list" where
  "mrkl_tools search_run llm_math_chain_run db_chain_run =
     list_display
       [Tool_new (Some ''Search'') (Some search_run)
          (Some (Some ''useful for when you need to answer questions about current events. You should ask targeted questions'')),
        Tool_new (Some ''Calculator'') (Some llm_math_chain_run)
          (Some (Some ''useful for when you need to answer questions about math'')),
        Tool_new (Some ''FooBar DB'') (Some db_chain_run)
          (Some (Some ''useful for when you need to answer questions about FooBar. Input should be in the form of a question containing full context''))]"


section \<open>The agent loop\<close>

text \<open>
  With \<^verbatim>\<open>return_intermediate_steps=True\<close> the notebook prints the steps of a run; each
  is a pair of an action and the observation the tool returned, the action printed as
  \<^verbatim>\<open>AgentAction(tool='Search', tool_input="Olivia Wilde's boyfriend age", log="...")\<close>
  and described there as a named tuple. The record has the three fields of that output.
\<close>

record AgentAction =
  tool :: string
  tool_input :: string
  log :: string

type_synonym steps = "(AgentAction \<times> string) list"

text \<open>
  Modelled from the spec: the agent's decision step, whose code (the parsing of the
  model's text into an action or a final answer) is not in the repository's files. The
  notebook says that an action "can either be using a tool and observing its output, or
  returning to the user"; the glossary speaks of tools selected "based on model output"
  until "a final answer is produced". \<open>Act\<close> is the first kind of output, \<open>Finish\<close>
  the second, carrying the final answer.
\<close>

datatype decision = Act AgentAction | Finish string

text \<open>
  Modelled from the spec: how the agent finds the tool that the model's output names,
  which is not in the repository's files. A tool is "a named callable", so the tool is
  looked up by its name among the tools the agent was given; the first one of that name
  is taken.
\<close>

definition lookup_tool :: "Tool list \<Rightarrow> string \<Rightarrow> Tool option" where
  "lookup_tool ts n = find (\<lambda>t. name t = n) ts"

text \<open>
  Modelled from the spec: the observation that follows an action, whose code is not in
  the repository's files. Using a tool is "observing its output": the observation is
  what the named tool's function returns on the action's input. Neither the spec nor
  the notebooks say what is observed when the model names a tool that the agent was
  not given, so that observation is the parameter \<open>missing\<close>.
\<close>

definition observe :: "Tool list \<Rightarrow> (AgentAction \<Rightarrow> string) \<Rightarrow> AgentAction \<Rightarrow> string" where
  "observe ts missing a =
     (case lookup_tool ts (tool a) of
        Some t \<Rightarrow> func t (tool_input a)
      | None \<Rightarrow> missing a)"

text \<open>
  Modelled from the spec: the agent's loop, which is not in the repository's files. The
  glossary describes the agent as "a component that repeatedly selects and invokes tools
  based on model output until a final answer is produced", the README as "an LLM making
  decisions about which Actions to take, taking that Action, seeing an Observation, and
  repeating that until done".

  The language model is the parameter \<open>llm\<close>: given the user's input and the steps taken
  so far (each with its observation), it gives the next decision. Within one run the
  list of steps only grows, so the model is asked about each history at most once, and a
  function of the history covers a model that is not deterministic across runs. On
  \<open>Finish\<close> the loop returns the final answer together with the steps taken. On
  \<open>Act\<close> the action and its observation are appended to the steps the model sees
  next, and the loop goes on.

  A final answer is the only end of the loop: nothing bounds the number of rounds, and
  a model that never gives a final answer keeps the loop running, which is the value
  \<open>None\<close>.
\<close>

partial_function (option) agent_loop ::
  "Tool list \<Rightarrow> (AgentAction \<Rightarrow> string) \<Rightarrow> (string \<Rightarrow> steps \<Rightarrow> decision) \<Rightarrow> string \<Rightarrow> steps
     \<Rightarrow> (string \<times> steps) option" where
  "agent_loop ts missing llm inp st =
     (case llm inp st of
        Finish out \<Rightarrow> Some (out, st)
      | Act a \<Rightarrow> agent_loop ts missing llm inp (st @ [(a, observe ts missing a)]))"

text \<open>Modelled from the spec: a run of the agent on an input starts the loop with no steps taken.\<close>

definition agent_run ::
  "Tool list \<Rightarrow> (AgentAction \<Rightarrow> string) \<Rightarrow> (string \<Rightarrow> steps \<Rightarrow> decision) \<Rightarrow> string
     \<Rightarrow> (string \<times> steps) option" where
  "agent_run ts missing llm inp = agent_loop ts missing llm inp []"


section \<open>The transcript of the notebook\<close>

text \<open>
  The run that \<^verbatim>\<open>docs/getting_started/agents.ipynb\<close> shows with its intermediate steps:
  the user's input, what the search tool and the calculator returned, the two actions the
  model chose and its final answer, as the notebook prints them. The model of this run
  answers by the number of steps taken so far.
\<close>

definition transcript_input :: string where
  "transcript_input =
     ''How old is Olivia Wilde's boyfriend? What is that number raised to the 0.23 power?''"

definition transcript_search_run :: "string \<Rightarrow> string" where
  "transcript_search_run q =
     ''While Wilde, 37, and Styles, 27, have both kept a low profile when it comes to talking about their relationship, Wilde did address their ...''"

definition transcript_llm_math_chain_run :: "string \<Rightarrow> string" where
  "transcript_llm_math_chain_run q = ''Answer: 2.1340945944237553\<newline>''"

definition transcript_action1 :: AgentAction where
  "transcript_action1 =
     \<lparr>tool = ''Search'', tool_input = ''Olivia Wilde's boyfriend age'',
      log = '' I need to find out how old Olivia Wilde's boyfriend is, and then use a calculator to calculate the power.\<newline>Action: Search\<newline>Action Input: Olivia Wilde's boyfriend age''\<rparr>"

definition transcript_action2 :: AgentAction where
  "transcript_action2 =
     \<lparr>tool = ''Calculator'', tool_input = ''27^0.23'',
      log = '' Olivia Wilde's boyfriend is 27 years old.\<newline>Action: Calculator\<newline>Action Input: 27^0.23''\<rparr>"

definition transcript_llm :: "string \<Rightarrow> steps \<Rightarrow> decision" where
  "transcript_llm inp st =
     (case st of
        [] \<Rightarrow> Act transcript_action1
      | [s1] \<Rightarrow> Act transcript_action2
      | _ \<Rightarrow> Finish ''2.1340945944237553'')"

text \<open>The value the notebook prints for \<^verbatim>\<open>response["intermediate_steps"]\<close>.\<close>

definition transcript_steps :: steps where
  "transcript_steps =
     [(transcript_action1,
       ''While Wilde, 37, and Styles, 27, have both kept a low profile when it comes to talking about their relationship, Wilde did address their ...''),
      (transcript_action2, ''Answer: 2.1340945944237553\<newline>'')]"


section \<open>Properties of the tool interface\<close>

lemma Tool_new_supplied:
  "Tool_new (Some n) (Some f) d =
     Inr \<lparr>name = n, func = f, description = (case d of None \<Rightarrow> None | Some d' \<Rightarrow> d')\<rparr>"
  by (simp add: Tool_new_def)

lemma Tool_new_missing:
  "Tool_new None f d = Inl TypeError" "Tool_new n None d = Inl TypeError"
  by (simp_all add: Tool_new_def split: option.splits)

text \<open>Both notebooks build their lists without an exception: every call supplies all three fields.\<close>

lemma tools_eq:
  "tools search_run llm_math_chain_run =
     Inr [\<lparr>name = ''Search'', func = search_run,
            description = Some ''useful for when you need to answer questions about current events''\<rparr>,
          \<lparr>name = ''Calculator'', func = llm_math_chain_run,
            description = Some ''useful for when you need to answer questions about math''\<rparr>]"
  by (simp add: tools_def Tool_new_supplied)

lemma mrkl_tools_names:
  "map_sum id (map name) (mrkl_tools s m d) = Inr [''Search'', ''Calculator'', ''FooBar DB'']"
  by (simp add: mrkl_tools_def Tool_new_supplied)

text \<open>
  Claim C2. Every tool is a named callable from text to text. The constructor returns a
  tool exactly when a name and a function are supplied (both are required); the tool it
  returns carries that name and that function, which maps a string to a string; and the
  description is optional: left out, it is \<open>None\<close>, supplied, it is the value given.
\<close>

theorem Tool_interface:
  "(\<exists>t. Tool_new n f d = Inr t) = (\<exists>n' f'. n = Some n' \<and> f = Some f')
   \<and> Tool_new (Some a) (Some g) None = Inr \<lparr>name = a, func = g, description = None\<rparr>
   \<and> Tool_new (Some a) (Some g) (Some e) = Inr \<lparr>name = a, func = g, description = e\<rparr>
   \<and> func \<lparr>name = a, func = g, description = e\<rparr> x = g x"
  by (cases n; cases f) (simp_all add: Tool_new_def)


section \<open>Properties of the agent loop\<close>

text \<open>The tool that answers an action is one of the agent's tools and has the name the model gave.\<close>

lemma lookup_tool_Some:
  "lookup_tool ts n = Some t \<Longrightarrow> t \<in> set ts \<and> name t = n"
  by (auto simp: lookup_tool_def find_Some_iff)

lemma observe_known:
  "lookup_tool ts (tool a) = Some t \<Longrightarrow> observe ts missing a = func t (tool_input a)"
  by (simp add: observe_def)

text \<open>
  What a returned result says about the run, for the loop started after any steps
  \<open>s0\<close>: the steps returned extend \<open>s0\<close>, the model's output on all of them is the
  final answer returned, and each added step is the action the model chose on the steps
  before it, paired with its observation.
\<close>

lemma agent_loop_sound:
  "agent_loop ts missing llm inp s0 = Some r \<Longrightarrow>
   \<exists>ext. snd r = s0 @ ext \<and> llm inp (snd r) = Finish (fst r) \<and>
     (\<forall>i<length ext. \<exists>a. llm inp (s0 @ take i ext) = Act a \<and>
        ext ! i = (a, observe ts missing a))"
proof (induction rule: agent_loop.raw_induct [rotated 1, consumes 1])
  case (1 loop ts missing llm inp st r)
  show ?case
  proof (cases "llm inp st")
    case (Finish out)
    with "1.hyps" have "r = (out, st)" by simp
    with Finish show ?thesis by (intro exI [of _ "[]"]) simp
  next
    case (Act a)
    let ?e = "(a, observe ts missing a)"
    from Act "1.hyps" have "loop ts missing llm inp (st @ [?e]) = Some r" by simp
    from "1.IH" [OF this] obtain ext where
      s: "snd r = (st @ [?e]) @ ext" and fin: "llm inp (snd r) = Finish (fst r)" and
      rest: "\<forall>i<length ext. \<exists>a. llm inp ((st @ [?e]) @ take i ext) = Act a \<and>
               ext ! i = (a, observe ts missing a)"
      by blast
    show ?thesis
    proof (intro exI [of _ "?e # ext"] conjI)
      show "snd r = st @ ?e # ext" using s by simp
      show "llm inp (snd r) = Finish (fst r)" by (rule fin)
      show "\<forall>i<length (?e # ext). \<exists>a. llm inp (st @ take i (?e # ext)) = Act a \<and>
               (?e # ext) ! i = (a, observe ts missing a)"
        using Act rest by (simp add: All_less_Suc2)
    qed
  qed
qed

text \<open>
  Conversely the loop returns: when the model's outputs along a list of steps are
  actions, each step holding the action's observation, and its output after them is a
  final answer, the loop started before these steps ends with that answer.
\<close>

lemma agent_loop_complete:
  "llm inp (s0 @ ext) = Finish out \<Longrightarrow>
   (\<forall>i<length ext. \<exists>a. llm inp (s0 @ take i ext) = Act a \<and>
        ext ! i = (a, observe ts missing a)) \<Longrightarrow>
   agent_loop ts missing llm inp s0 = Some (out, s0 @ ext)"
proof (induction ext arbitrary: s0)
  case Nil
  then show ?case by (subst agent_loop.simps) simp
next
  case (Cons e ext)
  from Cons.prems(2) obtain a where
    act: "llm inp s0 = Act a" and e: "e = (a, observe ts missing a)"
    by (auto simp: All_less_Suc2)
  from Cons.prems(2) have rest:
    "\<forall>i<length ext. \<exists>a. llm inp ((s0 @ [e]) @ take i ext) = Act a \<and>
        ext ! i = (a, observe ts missing a)"
    by (simp add: All_less_Suc2)
  from Cons.prems(1) have "llm inp ((s0 @ [e]) @ ext) = Finish out" by simp
  from Cons.IH [OF this rest]
  have "agent_loop ts missing llm inp (s0 @ [e]) = Some (out, s0 @ e # ext)"
    by simp
  with act e show ?case by (subst agent_loop.simps) simp
qed

lemma agent_run_Some_iff:
  "agent_run ts missing llm inp = Some (out, steps) \<longleftrightarrow>
     llm inp steps = Finish out \<and>
     (\<forall>i<length steps. \<exists>a. llm inp (take i steps) = Act a \<and>
        steps ! i = (a, observe ts missing a))"
proof
  assume "agent_run ts missing llm inp = Some (out, steps)"
  then have "agent_loop ts missing llm inp [] = Some (out, steps)"
    by (simp add: agent_run_def)
  from agent_loop_sound [OF this] show
    "llm inp steps = Finish out \<and>
     (\<forall>i<length steps. \<exists>a. llm inp (take i steps) = Act a \<and>
        steps ! i = (a, observe ts missing a))"
    by auto
next
  assume "llm inp steps = Finish out \<and>
     (\<forall>i<length steps. \<exists>a. llm inp (take i steps) = Act a \<and>
        steps ! i = (a, observe ts missing a))"
  then show "agent_run ts missing llm inp = Some (out, steps)"
    using agent_loop_complete [of llm inp "[]" steps out ts missing]
    by (simp add: agent_run_def)
qed

text \<open>
  The run goes on for ever exactly when no final answer is ever produced: whatever steps
  the run has taken, the model's output on them is another action.
\<close>

lemma agent_run_None_iff:
  "agent_run ts missing llm inp = None \<longleftrightarrow>
     (\<forall>steps.
        (\<forall>i<length steps. \<exists>a. llm inp (take i steps) = Act a \<and>
           steps ! i = (a, observe ts missing a)) \<longrightarrow>
        (\<exists>a. llm inp steps = Act a))"
proof
  assume none: "agent_run ts missing llm inp = None"
  show "\<forall>steps.
        (\<forall>i<length steps. \<exists>a. llm inp (take i steps) = Act a \<and>
           steps ! i = (a, observe ts missing a)) \<longrightarrow>
        (\<exists>a. llm inp steps = Act a)"
  proof (intro allI impI)
    fix steps
    assume taken: "\<forall>i<length steps. \<exists>a. llm inp (take i steps) = Act a \<and>
           steps ! i = (a, observe ts missing a)"
    show "\<exists>a. llm inp steps = Act a"
    proof (cases "llm inp steps")
      case (Act a)
      then show ?thesis by blast
    next
      case (Finish out)
      with taken have "agent_run ts missing llm inp = Some (out, steps)"
        by (simp add: agent_run_Some_iff)
      with none show ?thesis by simp
    qed
  qed
next
  assume never: "\<forall>steps.
        (\<forall>i<length steps. \<exists>a. llm inp (take i steps) = Act a \<and>
           steps ! i = (a, observe ts missing a)) \<longrightarrow>
        (\<exists>a. llm inp steps = Act a)"
  show "agent_run ts missing llm inp = None"
  proof (rule ccontr)
    assume "agent_run ts missing llm inp \<noteq> None"
    then obtain out steps where "agent_run ts missing llm inp = Some (out, steps)"
      by auto
    then have fin: "llm inp steps = Finish out" and
      taken: "\<forall>i<length steps. \<exists>a. llm inp (take i steps) = Act a \<and>
           steps ! i = (a, observe ts missing a)"
      by (simp_all add: agent_run_Some_iff)
    from never taken obtain a where "llm inp steps = Act a" by blast
    with fin show False by simp
  qed
qed

text \<open>
  Claim C3. Every run of the agent either stops or goes on for ever, and the result of
  a run that stops is always a final answer with the steps taken: the loop has no other
  end. The run stops with the answer \<open>out\<close> after the steps \<open>steps\<close> exactly when
  the model's output on \<open>steps\<close> is the final answer \<open>out\<close> and, at every earlier
  point \<open>i\<close>, the model's output on the first \<open>i\<close> steps was an action (not a final
  answer) and step \<open>i\<close> is that action with its observation, which for a tool of the
  agent is what the tool's function returned on the action's input. The run does not
  stop exactly when, after any steps so taken, the model's output is one more action.
  So tools are selected from the model's output and invoked one after the other, each
  observation is part of what the model is asked next, the run stops at the first final
  answer, not before and not later, and returns it, and every tool invocation of the
  run precedes that answer.
\<close>

theorem agent_run_final_answer:
  "(agent_run ts missing llm inp = Some r \<longleftrightarrow>
      llm inp (snd r) = Finish (fst r) \<and>
      (\<forall>i<length (snd r). \<exists>a. llm inp (take i (snd r)) = Act a \<and>
         snd r ! i = (a, observe ts missing a)))
   \<and> (agent_run ts missing llm inp = None \<longleftrightarrow>
      (\<forall>steps.
         (\<forall>i<length steps. \<exists>a. llm inp (take i steps) = Act a \<and>
            steps ! i = (a, observe ts missing a)) \<longrightarrow>
         (\<exists>a. llm inp steps = Act a)))
   \<and> (lookup_tool ts (tool b) = Some t \<longrightarrow>
        t \<in> set ts \<and> name t = tool b \<and> observe ts missing b = func t (tool_input b))"
proof (intro conjI)
  show "agent_run ts missing llm inp = Some r \<longleftrightarrow>
      llm inp (snd r) = Finish (fst r) \<and>
      (\<forall>i<length (snd r). \<exists>a. llm inp (take i (snd r)) = Act a \<and>
         snd r ! i = (a, observe ts missing a))"
    using agent_run_Some_iff [of ts missing llm inp "fst r" "snd r"] by simp
  show "agent_run ts missing llm inp = None \<longleftrightarrow>
      (\<forall>steps.
         (\<forall>i<length steps. \<exists>a. llm inp (take i steps) = Act a \<and>
            steps ! i = (a, observe ts missing a)) \<longrightarrow>
         (\<exists>a. llm inp steps = Act a))"
    by (rule agent_run_None_iff)
  show "lookup_tool ts (tool b) = Some t \<longrightarrow>
        t \<in> set ts \<and> name t = tool b \<and> observe ts missing b = func t (tool_input b)"
    using lookup_tool_Some [of ts "tool b" t] observe_known [of ts b t missing] by blast
qed

theorem agent_run_final_answer_witness:
  "map_sum id (\<lambda>ts. agent_run ts (\<lambda>a. []) transcript_llm transcript_input)
     (tools transcript_search_run transcript_llm_math_chain_run) =
   Inr (Some (''2.1340945944237553'', transcript_steps))"
proof -
  let ?ts = "[\<lparr>name = ''Search'', func = transcript_search_run,
                description = Some ''useful for when you need to answer questions about current events''\<rparr>,
              \<lparr>name = ''Calculator'', func = transcript_llm_math_chain_run,
                description = Some ''useful for when you need to answer questions about math''\<rparr>]"
  let ?r = "(''2.1340945944237553'', transcript_steps)"
  have fin: "transcript_llm transcript_input (snd ?r) = Finish (fst ?r)"
    by (simp add: transcript_llm_def transcript_steps_def)
  have s0: "transcript_llm transcript_input (take 0 (snd ?r)) = Act transcript_action1"
    by (simp add: transcript_llm_def)
  have s1: "transcript_llm transcript_input (take (Suc 0) (snd ?r)) = Act transcript_action2"
    by (simp add: transcript_llm_def transcript_steps_def)
  have o1: "snd ?r ! 0 = (transcript_action1, observe ?ts (\<lambda>a. []) transcript_action1)"
    by (simp add: transcript_steps_def observe_def lookup_tool_def transcript_action1_def
        transcript_search_run_def)
  have o2: "snd ?r ! Suc 0 = (transcript_action2, observe ?ts (\<lambda>a. []) transcript_action2)"
    by (simp add: transcript_steps_def observe_def lookup_tool_def transcript_action2_def
        transcript_llm_math_chain_run_def)
  have len: "length (snd ?r) = Suc (Suc 0)"
    by (simp add: transcript_steps_def)
  have "agent_run ?ts (\<lambda>a. []) transcript_llm transcript_input = Some ?r"
    using agent_run_final_answer [of ?ts "\<lambda>a. []" transcript_llm transcript_input ?r]
      fin s0 s1 o1 o2
    by (simp only: len All_less_Suc2 less_nat_zero_code) blast
  then show ?thesis by (simp add: tools_eq)
qed

end
